theory Spec2Isabelle
  imports Main "HOL-Library.Word"
begin

section \<open>Bytes, strings and errors\<close>

type_synonym byte = "8 word"

text \<open>
  A Go string is an immutable byte sequence; \<open>string(b)\<close> and \<open>[]byte(s)\<close> copy the
  bytes unchanged.  Strings are modelled as \<open>string\<close>, with the two conversions below.
\<close>

definition string_of_bytes :: "byte list \<Rightarrow> string" where
  "string_of_bytes bs = map (\<lambda>b. char_of (unat b)) bs"

definition bytes_of_string :: "string \<Rightarrow> byte list" where
  "bytes_of_string s = map (\<lambda>c. (of_char c :: byte)) s"

text \<open>
  Errors are values.  \<open>EOF\<close> is what \<open>conn.Read\<close> reports at the end of the stream,
  \<open>WriteError\<close> what \<open>conn.Write\<close> reports when the peer accepts no more bytes,
  \<open>DialError\<close> what \<open>net.Dial\<close> reports, \<open>ErrorsNew m\<close> is \<open>errors.New(m)\<close>,
  \<open>ErrShortWrite\<close> is \<open>io.ErrShortWrite\<close>, and \<open>TunnelError r w\<close> is the
  \<open>fmt.Errorf\<close> value built from the two tunnel outcomes.
  A panic is not an error value: it is kept apart.
\<close>

datatype error =
    EOF
  | WriteError
  | DialError string
  | ErrorsNew string
  | ErrShortWrite
  | TunnelError "error option" "error option"

datatype panic = NilPointerDereference | IndexOutOfRange

section \<open>Constants (constanst.go, constants.go)\<close>

definition SOCKS5H_VERSION :: byte where "SOCKS5H_VERSION = 0x05"
definition RSV :: byte where "RSV = 0x00"

definition NO_AUTHENTICATION_REQUIRED_method :: byte where
  "NO_AUTHENTICATION_REQUIRED_method = 0x00"
definition GSSAPI_method :: byte where "GSSAPI_method = 0x01"
definition USERNAME_PASSWORD_method :: byte where "USERNAME_PASSWORD_method = 0x02"
definition NO_ACCEPTABLE_METHODS_method :: byte where "NO_ACCEPTABLE_METHODS_method = 0xFF"

definition CONNECT_cmd :: byte where "CONNECT_cmd = 0x01"
definition BIND_cmd :: byte where "BIND_cmd = 0x02"
definition UDP_ASSOCIATE_cmd :: byte where "UDP_ASSOCIATE_cmd = 0x03"

definition IP_V4_addr :: byte where "IP_V4_addr = 0x01"
definition DOMAINNAME_addr :: byte where "DOMAINNAME_addr = 0x03"
definition IP_V6_addr :: byte where "IP_V6_addr = 0x04"

definition SUCCEEDED_connReply :: byte where "SUCCEEDED_connReply = 0x00"
definition GENERAL_SOCKS_SERVER_FAILURE_connReply :: byte where
  "GENERAL_SOCKS_SERVER_FAILURE_connReply = 0x01"
definition ADDRESS_TYPE_NOT_SUPPORTED_connReply :: byte where
  "ADDRESS_TYPE_NOT_SUPPORTED_connReply = 0x08"

definition TCP_V4 :: string where "TCP_V4 = ''tcp4''"

section \<open>The connection (net.Conn)\<close>

text \<open>
  A TCP address as \<open>net.TCPAddr\<close> has it: the IP as a byte slice (4 or 16 bytes) and
  the port.
\<close>

record TCPAddr =
  IP :: "byte list"
  Port :: int

text \<open>
  One end of a TCP stream.  \<open>inp\<close> holds the segments that are still to arrive, in
  order; once they are used up the peer has closed and \<open>Read\<close> reports \<open>EOF\<close>.
  \<open>out\<close> collects the bytes \<open>Write\<close> has accepted.  \<open>wcap\<close> is \<open>None\<close> when the peer
  accepts every write and \<open>Some k\<close> when it accepts \<open>k\<close> more bytes before \<open>Write\<close>
  fails.  \<open>closed\<close> records \<open>Close\<close>; \<open>local\<close> is what \<open>LocalAddr\<close> returns.
\<close>

record conn =
  inp :: "byte list list"
  out :: "byte list"
  wcap :: "nat option"
  closed :: bool
  local :: TCPAddr

text \<open>
  \<open>conn.Read(buf)\<close> for a buffer of \<open>n\<close> bytes made by \<open>make([]byte, n)\<close> (all
  zero): the result is the connection, the buffer after the call, the count and the
  error.  A read into an empty buffer returns \<open>(0, nil)\<close> at once.  Otherwise the next
  segment fills the front of the buffer; what does not fit stays queued, and a segment
  shorter than the buffer gives a short count with a nil error.
\<close>

definition conn_Read :: "conn \<Rightarrow> nat \<Rightarrow> conn \<times> byte list \<times> nat \<times> error option" where
  "conn_Read c n =
     (if n = 0 then (c, [], 0, None)
      else case inp c of
        [] \<Rightarrow> (c, replicate n 0, 0, Some EOF)
      | s # ss \<Rightarrow>
          (let k = min n (length s)
           in (c\<lparr>inp := (if k < length s then drop k s # ss else ss)\<rparr>,
               take k s @ replicate (n - k) 0, k, None)))"

text \<open>
  \<open>conn.Write(p)\<close>: the connection, the count and the error.  A count below
  \<open>len(p)\<close> always comes with an error, as \<open>io.Writer\<close> requires.
\<close>

definition conn_Write :: "conn \<Rightarrow> byte list \<Rightarrow> conn \<times> nat \<times> error option" where
  "conn_Write c p =
     (case wcap c of
        None \<Rightarrow> (c\<lparr>out := out c @ p\<rparr>, length p, None)
      | Some k \<Rightarrow>
          (if length p \<le> k
           then (c\<lparr>out := out c @ p, wcap := Some (k - length p)\<rparr>, length p, None)
           else (c\<lparr>out := out c @ take k p, wcap := Some 0\<rparr>, k, Some WriteError)))"

definition conn_Close :: "conn \<Rightarrow> conn" where
  "conn_Close c = c\<lparr>closed := True\<rparr>"

section \<open>The data model (model.go)\<close>

record Socks5_Req =
  Version :: byte
  Cmd :: byte
  AType :: byte
  DstAddr :: "byte list"
  DstPort :: "byte list"
  addr :: string
  port :: int

text \<open>
  \<open>binary.BigEndian.Uint16(b)\<close> panics (index out of range) when \<open>b\<close> has fewer than
  two bytes.
\<close>

definition BigEndian_Uint16 :: "byte list \<Rightarrow> panic + nat" where
  "BigEndian_Uint16 b =
     (if length b < 2 then Inl IndexOutOfRange
      else Inr (unat (b ! 1) + 256 * unat (b ! 0)))"

text \<open>\<open>binary.BigEndian.PutUint16\<close> on a fresh two-byte slice, for a value below \<open>2 ^ 16\<close>.\<close>

definition BigEndian_PutUint16 :: "nat \<Rightarrow> byte list" where
  "BigEndian_PutUint16 v = [of_nat (v div 256), of_nat v]"

text \<open>The decimal digits of \<open>%d\<close>.\<close>

fun itoa_nat :: "nat \<Rightarrow> string" where
  "itoa_nat n =
     (if n < 10 then [char_of (48 + n)]
      else itoa_nat (n div 10) @ [char_of (48 + n mod 10)])"

declare itoa_nat.simps [simp del]

definition itoa :: "int \<Rightarrow> string" where
  "itoa i = (if i < 0 then CHR ''-'' # itoa_nat (nat (- i)) else itoa_nat (nat i))"

text \<open>
  The methods have value receivers: the assignment to the cache field changes a copy
  only, so each method is a function of the request.
\<close>

definition AddrStr :: "Socks5_Req \<Rightarrow> string" where
  "AddrStr s =
     (if length (Socks5_Req.addr s) > 0 then Socks5_Req.addr s
      else string_of_bytes (DstAddr s))"

definition PortNum :: "Socks5_Req \<Rightarrow> panic + int" where
  "PortNum s =
     (if Socks5_Req.port s > 0 then Inr (Socks5_Req.port s)
      else case BigEndian_Uint16 (DstPort s) of
        Inl p \<Rightarrow> Inl p
      | Inr v \<Rightarrow> Inr (int v))"

definition FullAddr :: "Socks5_Req \<Rightarrow> panic + string" where
  "FullAddr s =
     (case PortNum s of
        Inl p \<Rightarrow> Inl p
      | Inr n \<Rightarrow> Inr (AddrStr s @ '':'' @ itoa n))"

record Socks5_Res =
  Reply :: byte
  AType :: byte
  BindAddr :: string
  BindPort :: int
  addr :: "byte list"
  port :: "byte list"

text \<open>The zero value \<open>Socks5_Res{}\<close>.\<close>

definition Socks5_Res_zero :: Socks5_Res where
  "Socks5_Res_zero =
     \<lparr>Reply = 0, AType = 0, BindAddr = [], BindPort = 0, addr = [], port = []\<rparr>"

definition AddrBytes :: "Socks5_Res \<Rightarrow> byte list" where
  "AddrBytes s =
     (if length (Socks5_Res.addr s) > 0 then Socks5_Res.addr s
      else bytes_of_string (BindAddr s))"

text \<open>\<open>uint16(s.BindPort)\<close> keeps the low 16 bits.\<close>

definition PortBytes :: "Socks5_Res \<Rightarrow> byte list" where
  "PortBytes s =
     (if length (Socks5_Res.port s) > 0 then Socks5_Res.port s
      else BigEndian_PutUint16 (nat (BindPort s mod 65536)))"

section \<open>The handshake (server.go, handler.go)\<close>

text \<open>
  \<open>replyMethodSelection\<close> is the same function in both packages.
  \<open>slices.Contains\<close> is membership in the list.
\<close>

definition replyMethodSelection :: "conn \<Rightarrow> byte list \<Rightarrow> conn \<times> error option" where
  "replyMethodSelection c methods =
     (let reply = [SOCKS5H_VERSION, NO_ACCEPTABLE_METHODS_method];
          reply = (if NO_AUTHENTICATION_REQUIRED_method \<in> set methods
                   then reply[1 := NO_AUTHENTICATION_REQUIRED_method] else reply)
      in case conn_Write c reply of
           (c', _, Some err) \<Rightarrow> (c', Some err)
         | (c', _, None) \<Rightarrow> (c', None))"

definition readIPV4Addr :: "conn \<Rightarrow> conn \<times> (error + byte list \<times> byte list)" where
  "readIPV4Addr c =
     (case conn_Read c 4 of
        (c1, _, _, Some err) \<Rightarrow> (c1, Inl err)
      | (c1, ipv4, readLen, None) \<Rightarrow>
          (if readLen \<noteq> 4 then (c1, Inl (ErrorsNew ''unable to ipv4''))
           else (case conn_Read c1 2 of
                   (c2, _, _, Some err) \<Rightarrow> (c2, Inl err)
                 | (c2, port', readLen, None) \<Rightarrow>
                     (if readLen \<noteq> 2 then (c2, Inl (ErrorsNew ''unable to ipv4 port''))
                      else (c2, Inr (ipv4, port'))))))"

definition readDomainNameAddr :: "conn \<Rightarrow> conn \<times> (error + byte list \<times> byte list)" where
  "readDomainNameAddr c =
     (case conn_Read c 1 of
        (c1, _, _, Some err) \<Rightarrow> (c1, Inl err)
      | (c1, len, readLen, None) \<Rightarrow>
          (if readLen \<noteq> 1
           then (c1, Inl (ErrorsNew ''unable to read domain name length''))
           else (case conn_Read c1 (unat (len ! 0)) of
                   (c2, _, _, Some err) \<Rightarrow> (c2, Inl err)
                 | (c2, domainName, readLen, None) \<Rightarrow>
                     (if readLen \<noteq> unat (len ! 0)
                      then (c2, Inl (ErrorsNew ''unable to domain name''))
                      else (case conn_Read c2 2 of
                              (c3, _, _, Some err) \<Rightarrow> (c3, Inl err)
                            | (c3, port', readLen, None) \<Rightarrow>
                                (if readLen \<noteq> 2
                                 then (c3, Inl (ErrorsNew ''unable to domain name port''))
                                 else (c3, Inr (domainName, port'))))))))"

definition readIPV6Addr :: "conn \<Rightarrow> conn \<times> (error + byte list \<times> byte list)" where
  "readIPV6Addr c =
     (case conn_Read c 16 of
        (c1, _, _, Some err) \<Rightarrow> (c1, Inl err)
      | (c1, ipv6, readLen, None) \<Rightarrow>
          (if readLen \<noteq> 16 then (c1, Inl (ErrorsNew ''unable to ipv6''))
           else (case conn_Read c1 2 of
                   (c2, _, _, Some err) \<Rightarrow> (c2, Inl err)
                 | (c2, port', readLen, None) \<Rightarrow>
                     (if readLen \<noteq> 2 then (c2, Inl (ErrorsNew ''unable to ipv6 port''))
                      else (c2, Inr (ipv6, port'))))))"

text \<open>
  \<open>readSockRequest\<close> of server.go.  The header buffer has four bytes whatever the
  read returned, so indexing it cannot fail.
\<close>

definition readSockRequest :: "conn \<Rightarrow> conn \<times> (error + Socks5_Req)" where
  "readSockRequest c =
     (case conn_Read c 4 of
        (c1, _, _, Some err) \<Rightarrow> (c1, Inl err)
      | (c1, header, readLen, None) \<Rightarrow>
          if readLen \<noteq> 4
          then (c1, Inl (ErrorsNew ''ver to aytp in socks5h request isn't of length 4''))
          else
            (let ver = header ! 0; cmd = header ! 1; rsv = header ! 2; atyp = header ! 3
             in if ver \<noteq> SOCKS5H_VERSION \<or> rsv \<noteq> RSV
                then (c1, Inl (ErrorsNew ''invalid version or rsv''))
                else if cmd < CONNECT_cmd \<or> cmd > UDP_ASSOCIATE_cmd
                then (c1, Inl (ErrorsNew ''request cmd type is invalid''))
                else
                  (case (if atyp = IP_V4_addr then readIPV4Addr c1
                         else if atyp = DOMAINNAME_addr then readDomainNameAddr c1
                         else if atyp = IP_V6_addr then readIPV6Addr c1
                         else (c1, Inl (ErrorsNew ''invalid atyp provided''))) of
                     (c2, Inl err) \<Rightarrow> (c2, Inl err)
                   | (c2, Inr (addr', port')) \<Rightarrow>
                       (c2, Inr \<lparr>Version = ver, Cmd = cmd, Socks5_Req.AType = atyp,
                                 DstAddr = addr', DstPort = port',
                                 Socks5_Req.addr = [], Socks5_Req.port = 0\<rparr>))))"

section \<open>IP addresses (net.IP)\<close>

text \<open>\<open>IP.To4\<close> and \<open>IP.To16\<close>; \<open>None\<close> is the nil slice.\<close>

definition To4 :: "byte list \<Rightarrow> byte list option" where
  "To4 ip =
     (if length ip = 4 then Some ip
      else if length ip = 16 \<and> take 10 ip = replicate 10 0 \<and> ip ! 10 = 0xFF \<and> ip ! 11 = 0xFF
      then Some (drop 12 ip)
      else None)"

definition To16 :: "byte list \<Rightarrow> byte list option" where
  "To16 ip =
     (if length ip = 4 then Some (replicate 10 0 @ [0xFF, 0xFF] @ ip)
      else if length ip = 16 then Some ip
      else None)"

definition hexdigit :: "nat \<Rightarrow> char" where
  "hexdigit d = (if d < 10 then char_of (48 + d) else char_of (87 + d))"

fun hex_nat :: "nat \<Rightarrow> string" where
  "hex_nat n = (if n < 16 then [hexdigit n] else hex_nat (n div 16) @ [hexdigit (n mod 16)])"

declare hex_nat.simps [simp del]

fun join :: "string \<Rightarrow> string list \<Rightarrow> string" where
  "join sep [] = []"
| "join sep [x] = x"
| "join sep (x # y # ys) = x @ sep @ join sep (y # ys)"

text \<open>The eight 16-bit fields of a 16-byte address.\<close>

definition v6u16 :: "byte list \<Rightarrow> nat list" where
  "v6u16 ip = map (\<lambda>i. 256 * unat (ip ! (2 * i)) + unat (ip ! (2 * i + 1))) [0..<8]"

text \<open>
  The textual form of an IPv6 address: the first longest run of two or more zero
  fields is written \<open>::\<close>, the other fields in lower-case hexadecimal.
\<close>

definition zero_run :: "nat list \<Rightarrow> nat \<Rightarrow> nat" where
  "zero_run fs i = length (takeWhile (\<lambda>x. x = 0) (drop i fs))"

definition best_run :: "nat list \<Rightarrow> nat \<times> nat" where
  "best_run fs =
     fold (\<lambda>i (zs, ze). let l = zero_run fs i
                         in if l \<ge> 2 \<and> l > ze - zs then (i, i + l) else (zs, ze))
          [0..<8] (255, 255)"

definition string6 :: "byte list \<Rightarrow> string" where
  "string6 ip =
     (let fs = v6u16 ip; (zs, ze) = best_run fs
      in if zs < 8
         then join '':'' (map hex_nat (take zs fs)) @ ''::'' @ join '':'' (map hex_nat (drop ze fs))
         else join '':'' (map hex_nat fs))"

definition string4 :: "byte list \<Rightarrow> string" where
  "string4 p4 = join ''.'' (map (\<lambda>b. itoa_nat (unat b)) p4)"

definition hexString :: "byte list \<Rightarrow> string" where
  "hexString b = concat (map (\<lambda>x. [hexdigit (unat x div 16), hexdigit (unat x mod 16)]) b)"

text \<open>\<open>IP.String\<close>.\<close>

definition IP_String :: "byte list \<Rightarrow> string" where
  "IP_String ip =
     (if length ip = 0 then ''<nil>''
      else if length ip \<noteq> 4 \<and> length ip \<noteq> 16 then ''?'' @ hexString ip
      else case To4 ip of
        Some p4 \<Rightarrow> string4 p4
      | None \<Rightarrow> string6 ip)"

section \<open>Dialling and the reply (server.go)\<close>

text \<open>
  \<open>net.Dial\<close> is the network's answer to a network name and an address: an error, or
  the new connection.  On an error the connection it returns is nil.
\<close>

type_synonym dialer = "string \<Rightarrow> string \<Rightarrow> error + conn"

text \<open>
  \<open>connectDst\<close>.  The switch leaves \<open>remote\<close> nil unless the address type is
  DOMAINNAME and the dial succeeds.  \<open>remote.LocalAddr()\<close> is then called before
  \<open>remote\<close> is compared with nil: on a nil \<open>remote\<close> that call panics.
\<close>

definition connectDst ::
  "dialer \<Rightarrow> Socks5_Req \<Rightarrow> panic + (conn option \<times> Socks5_Res \<times> error option)" where
  "connectDst dial req =
     (case (if Socks5_Req.AType req = DOMAINNAME_addr
            then (case FullAddr req of
                    Inl p \<Rightarrow> Inl p
                  | Inr a \<Rightarrow>
                      (case dial TCP_V4 a of
                         Inl err \<Rightarrow> Inr (None, Socks5_Res_zero, Some err)
                       | Inr r \<Rightarrow>
                           Inr (Some r, Socks5_Res_zero\<lparr>Reply := SUCCEEDED_connReply\<rparr>, None)))
            else Inr (None, Socks5_Res_zero\<lparr>Reply := ADDRESS_TYPE_NOT_SUPPORTED_connReply\<rparr>,
                      None)) of
        Inl p \<Rightarrow> Inl p
      | Inr (remote, res, err) \<Rightarrow>
          (case remote of
             None \<Rightarrow> Inl NilPointerDereference
           | Some r \<Rightarrow>
               (let localAddr = local r
                in Inr (remote,
                        res\<lparr>Socks5_Res.AType :=
                              (if To4 (IP localAddr) \<noteq> None then IP_V4_addr
                               else if To16 (IP localAddr) \<noteq> None then IP_V6_addr
                               else DOMAINNAME_addr),
                            BindAddr := IP_String (IP localAddr),
                            BindPort := Port localAddr\<rparr>,
                        err))))"

definition prepareProxy ::
  "dialer \<Rightarrow> Socks5_Req \<Rightarrow> panic + (conn option \<times> Socks5_Res \<times> error option)" where
  "prepareProxy dial req =
     (if Cmd req = CONNECT_cmd then connectDst dial req
      else Inr (None, Socks5_Res_zero, None))"

definition replyConnInfo :: "conn \<Rightarrow> Socks5_Res \<Rightarrow> conn \<times> error option" where
  "replyConnInfo c res =
     (let reply = [SOCKS5H_VERSION, Reply res, RSV, Socks5_Res.AType res];
          reply = reply @ AddrBytes res;
          reply = reply @ PortBytes res
      in case conn_Write c reply of
           (c', _, Some err) \<Rightarrow> (c', Some err)
         | (c', wLen, None) \<Rightarrow>
             if wLen \<noteq> length reply
             then (c', Some (ErrorsNew ''couldn't reply complete connect reply''))
             else (c', None))"

section \<open>The tunnel (server.go)\<close>

text \<open>
  One iteration of the loop of \<open>io.Copy(dst, src)\<close>, with its 32 KiB buffer: the two
  connections afterwards, and \<open>Some r\<close> when the loop ends with result \<open>r\<close> (nil on
  \<open>EOF\<close>).
\<close>

definition copy_iter :: "conn \<Rightarrow> conn \<Rightarrow> conn \<times> conn \<times> error option option" where
  "copy_iter dst src =
     (case conn_Read src 32768 of
        (src', buf, nr, er) \<Rightarrow>
          (case (if nr > 0
                 then (case conn_Write dst (take nr buf) of
                         (dst', nw, ew) \<Rightarrow>
                           (dst', if ew \<noteq> None then Some ew
                                  else if nr \<noteq> nw then Some (Some ErrShortWrite)
                                  else None))
                 else (dst, None)) of
             (dst', Some r) \<Rightarrow> (dst', src', Some r)
           | (dst', None) \<Rightarrow>
               (case er of
                  Some e \<Rightarrow> (dst', src', Some (if e = EOF then None else Some e))
                | None \<Rightarrow> (dst', src', None))))"

text \<open>
  \<open>tunnel\<close> starts a goroutine that copies from the client to the remote and stores
  its result in \<open>writeErr\<close>, copies from the remote to the client itself, stores that
  result in \<open>readErr\<close> and returns.  The state of a run: the two connections, the two
  named results, whether the goroutine's copy has ended and whether \<open>tunnel\<close> has
  returned.
\<close>

record tunnel_state =
  cli :: conn
  rem :: conn
  readErr :: "error option"
  writeErr :: "error option"
  go_done :: bool
  returned :: bool

datatype thread = Caller | Goroutine

definition go_step :: "tunnel_state \<Rightarrow> tunnel_state" where
  "go_step st =
     (case copy_iter (rem st) (cli st) of
        (r', c', None) \<Rightarrow> st\<lparr>cli := c', rem := r'\<rparr>
      | (r', c', Some e) \<Rightarrow> st\<lparr>cli := c', rem := r', writeErr := e, go_done := True\<rparr>)"

definition caller_step :: "tunnel_state \<Rightarrow> tunnel_state" where
  "caller_step st =
     (case copy_iter (cli st) (rem st) of
        (c', r', None) \<Rightarrow> st\<lparr>cli := c', rem := r'\<rparr>
      | (c', r', Some e) \<Rightarrow> st\<lparr>cli := c', rem := r', readErr := e, returned := True\<rparr>)"

definition pending :: "conn \<Rightarrow> nat" where
  "pending c = sum_list (map (\<lambda>s. Suc (length s)) (inp c))"

text \<open>
  The schedule says which of the two runs the next iteration of its loop.  When the
  schedule is used up the caller runs on alone; its copy ends, since every iteration
  that does not end it takes bytes from the remote's pending input.
\<close>

function caller_finish :: "tunnel_state \<Rightarrow> tunnel_state" where
  "caller_finish st = (if returned st then st else caller_finish (caller_step st))"
  by pat_completeness auto
termination
proof (relation "measure (\<lambda>st. if returned st then 0 else Suc (pending (rem st)))")
  show "wf (measure (\<lambda>st. if returned st then 0 else Suc (pending (rem st))))"
    by simp
next
  fix st :: tunnel_state
  assume nr: "\<not> returned st"
  obtain c' r' res where ci: "copy_iter (cli st) (rem st) = (c', r', res)"
    by (cases "copy_iter (cli st) (rem st)") auto
  show "(caller_step st, st) \<in> measure (\<lambda>st. if returned st then 0 else Suc (pending (rem st)))"
  proof (cases res)
    case None
    obtain s1 buf k er where rd: "conn_Read (rem st) 32768 = (s1, buf, k, er)"
      by (cases "conn_Read (rem st) 32768") auto
    from ci None rd have er: "er = None" and s1: "s1 = r'"
      by (auto simp: copy_iter_def split: prod.splits if_splits option.splits)
    have "pending r' < pending (rem st)"
    proof (cases "inp (rem st)")
      case Nil
      with rd er show ?thesis by (simp add: conn_Read_def)
    next
      case (Cons s ss)
      with rd s1 have "inp r' = (if min 32768 (length s) < length s
                                 then drop (min 32768 (length s)) s # ss else ss)"
        by (auto simp: conn_Read_def Let_def)
      with Cons show ?thesis
        by (simp add: pending_def min_def split: if_splits)
    qed
    with ci None nr show ?thesis by (simp add: caller_step_def)
  next
    case (Some e)
    with ci nr show ?thesis by (simp add: caller_step_def)
  qed
qed

declare caller_finish.simps [simp del]

fun tunnel_run :: "thread list \<Rightarrow> tunnel_state \<Rightarrow> tunnel_state" where
  "tunnel_run [] st = caller_finish st"
| "tunnel_run (t # ts) st =
     (if returned st then st
      else case t of
        Caller \<Rightarrow> tunnel_run ts (caller_step st)
      | Goroutine \<Rightarrow> tunnel_run ts (if go_done st then st else go_step st))"

definition tunnel :: "thread list \<Rightarrow> conn \<Rightarrow> conn \<Rightarrow> tunnel_state" where
  "tunnel sched client remote =
     tunnel_run sched \<lparr>cli = client, rem = remote, readErr = None, writeErr = None,
                       go_done = False, returned = False\<rparr>"

section \<open>The state machine (server.go, handler.go)\<close>

text \<open>
  What \<open>handleSOCKS5\<close> needs from outside: the network's answer to a dial and the
  schedule of the tunnel's two copies.
\<close>

record env =
  dial :: dialer
  sched :: "thread list"

text \<open>
  The greeting: lines 79 to 91 of \<open>handleSOCKS5\<close>, the same in both packages.  The
  count returned by the read of the methods is discarded.
\<close>

definition handleSOCKS5_greeting :: "conn \<Rightarrow> conn \<times> (error + byte list)" where
  "handleSOCKS5_greeting c =
     (case conn_Read c 1 of
        (c1, _, _, Some err) \<Rightarrow> (c1, Inl err)
      | (c1, nmethods, _, None) \<Rightarrow>
          if length nmethods > 0 \<and> nmethods ! 0 > 0
          then (case conn_Read c1 (unat (nmethods ! 0)) of
                  (c2, _, _, Some err) \<Rightarrow> (c2, Inl err)
                | (c2, methods, _, None) \<Rightarrow> (c2, Inr methods))
          else (c1, Inr []))"

text \<open>
  The proxying: lines 102 to 119 of \<open>handleSOCKS5\<close> in server.go.  The result is the
  client connection, the remote connection if there is one, and either a panic or the
  error returned.
\<close>

definition handleSOCKS5_proxy ::
  "env \<Rightarrow> conn \<Rightarrow> Socks5_Req \<Rightarrow> conn \<times> conn option \<times> (panic + error option)" where
  "handleSOCKS5_proxy e c req =
     (case prepareProxy (dial e) req of
        Inl p \<Rightarrow> (c, None, Inl p)
      | Inr (remote, res, Some err) \<Rightarrow> (c, remote, Inr (Some err))
      | Inr (None, res, None) \<Rightarrow>
          (c, None, Inr (Some (ErrorsNew ''could not create remote connection'')))
      | Inr (Some remote, res, None) \<Rightarrow>
          (case replyConnInfo c res of
             (c', Some err) \<Rightarrow> (c', Some remote, Inr (Some err))
           | (c', None) \<Rightarrow>
               (let st = tunnel (sched e) c' remote
                in (cli st, Some (rem st),
                    Inr (if readErr st \<noteq> None \<or> writeErr st \<noteq> None
                         then Some (TunnelError (readErr st) (writeErr st))
                         else None)))))"

text \<open>\<open>handleSOCKS5\<close> of server.go.\<close>

definition handleSOCKS5 :: "env \<Rightarrow> conn \<Rightarrow> conn \<times> conn option \<times> (panic + error option)" where
  "handleSOCKS5 e c =
     (case handleSOCKS5_greeting c of
        (c2, Inl err) \<Rightarrow> (c2, None, Inr (Some err))
      | (c2, Inr methods) \<Rightarrow>
          (case replyMethodSelection c2 methods of
             (c3, Some err) \<Rightarrow> (c3, None, Inr (Some err))
           | (c3, None) \<Rightarrow>
               (case readSockRequest c3 of
                  (c4, Inl err) \<Rightarrow> (c4, None, Inr (Some err))
                | (c4, Inr req) \<Rightarrow> handleSOCKS5_proxy e c4 req)))"

text \<open>
  \<open>handle_socks5_connection\<close>.  The deferred \<open>conn.Close()\<close> runs on every way out,
  a panic included.
\<close>

definition handle_socks5_connection ::
  "env \<Rightarrow> conn \<Rightarrow> conn \<times> conn option \<times> (panic + error option)" where
  "handle_socks5_connection e c =
     (case conn_Read c 1 of
        (c1, _, _, Some err) \<Rightarrow> (conn_Close c1, None, Inr (Some err))
      | (c1, version, _, None) \<Rightarrow>
          if length version > 0 \<and> version ! 0 = SOCKS5H_VERSION
          then (case handleSOCKS5 e c1 of (c', remote, r) \<Rightarrow> (conn_Close c', remote, r))
          else (conn_Close c1, None, Inr (Some (ErrorsNew ''non socks5h connection received''))))"

text \<open>
  handler.go: \<open>readSockRequest\<close> makes the reads and checks of the one in server.go
  and returns the error only; \<open>handleSOCKS5\<close> ends after it.
\<close>

definition handlers_readSockRequest :: "conn \<Rightarrow> conn \<times> error option" where
  "handlers_readSockRequest c =
     (case readSockRequest c of
        (c', Inl err) \<Rightarrow> (c', Some err)
      | (c', Inr _) \<Rightarrow> (c', None))"

definition handlers_handleSOCKS5 :: "conn \<Rightarrow> conn \<times> error option" where
  "handlers_handleSOCKS5 c =
     (case handleSOCKS5_greeting c of
        (c2, Inl err) \<Rightarrow> (c2, Some err)
      | (c2, Inr methods) \<Rightarrow>
          (case replyMethodSelection c2 methods of
             (c3, Some err) \<Rightarrow> (c3, Some err)
           | (c3, None) \<Rightarrow> handlers_readSockRequest c3))"

section \<open>Error kinds and example connections\<close>

text \<open>
  The code has one error type.  An error is a protocol error when it is one of the three
  that \<open>readSockRequest\<close> makes for a field with a bad value.
\<close>

definition ProtocolError :: "error \<Rightarrow> bool" where
  "ProtocolError e =
     (e = ErrorsNew ''invalid version or rsv'' \<or>
      e = ErrorsNew ''request cmd type is invalid'' \<or>
      e = ErrorsNew ''invalid atyp provided'')"

text \<open>
  A client connection with the given segments still to arrive, a remote connection whose
  local end is 127.0.0.1, port 54321, a network that accepts every dial and one that
  refuses every dial.
\<close>

definition client_conn :: "byte list list \<Rightarrow> conn" where
  "client_conn segs =
     \<lparr>inp = segs, out = [], wcap = None, closed = False,
      local = \<lparr>IP = [127, 0, 0, 1], Port = 1080\<rparr>\<rparr>"

definition remote_conn :: conn where
  "remote_conn =
     \<lparr>inp = [], out = [], wcap = None, closed = False,
      local = \<lparr>IP = [127, 0, 0, 1], Port = 54321\<rparr>\<rparr>"

definition dial_accept :: dialer where
  "dial_accept network address = Inr remote_conn"

definition dial_refuse :: dialer where
  "dial_refuse network address = Inl (DialError ''connection refused'')"

definition env_accept :: env where
  "env_accept = \<lparr>dial = dial_accept, sched = []\<rparr>"

definition env_refuse :: env where
  "env_refuse = \<lparr>dial = dial_refuse, sched = []\<rparr>"

text \<open>
  Scenario A is a greeting offering \<open>NO_AUTH\<close> and a CONNECT to 127.0.0.1, port 80.
  Scenario D is the same greeting and a CONNECT to the domain name \<open>a.b\<close>, port 80.
  The other streams start after the version byte.
\<close>

definition scenario_A :: conn where
  "scenario_A =
     client_conn [[0x05, 0x01, 0x00],
                  [0x05, 0x01, 0x00, 0x01, 0x7F, 0x00, 0x00, 0x01, 0x00, 0x50]]"

definition scenario_D :: conn where
  "scenario_D =
     client_conn [[0x05, 0x01, 0x00],
                  [0x05, 0x01, 0x00, 0x03, 0x03, 0x61, 0x2E, 0x62, 0x00, 0x50]]"

definition short_greeting :: conn where
  "short_greeting = client_conn [[0x05, 0x02, 0x02]]"

definition greeting_userpass :: conn where
  "greeting_userpass = client_conn [[0x01, 0x02], [0x04, 0x01, 0x00, 0x01]]"

definition request_stream :: conn where
  "request_stream =
     client_conn [[0x05, 0x01, 0x00, 0x03, 0x03, 0x61, 0x2E, 0x62, 0x00, 0x50]]"

definition request_domain :: Socks5_Req where
  "request_domain =
     \<lparr>Version = 0x05, Cmd = 0x01, Socks5_Req.AType = 0x03, DstAddr = [0x61, 0x2E, 0x62],
      DstPort = [0x00, 0x50], Socks5_Req.addr = [], Socks5_Req.port = 0\<rparr>"

definition request_ipv6 :: Socks5_Req where
  "request_ipv6 =
     \<lparr>Version = 0x05, Cmd = 0x01, Socks5_Req.AType = 0x04,
      DstAddr = [0, 0, 0, 0, 0, 0, 0, 0, 0, 0, 0, 0, 0, 0, 0, 1],
      DstPort = [0x00, 0x50], Socks5_Req.addr = [], Socks5_Req.port = 0\<rparr>"

definition reply_example :: Socks5_Res where
  "reply_example =
     \<lparr>Reply = 0x00, AType = 0x01, BindAddr = ''127.0.0.1'', BindPort = 54321,
      addr = [], port = []\<rparr>"

definition tunnel_client :: conn where
  "tunnel_client = client_conn [[0x01, 0x02, 0x03]]"

definition tunnel_remote :: conn where
  "tunnel_remote = remote_conn\<lparr>wcap := Some 0\<rparr>"

section \<open>Facts about reading\<close>

lemmas socks_consts =
  SOCKS5H_VERSION_def RSV_def NO_AUTHENTICATION_REQUIRED_method_def GSSAPI_method_def
  USERNAME_PASSWORD_method_def NO_ACCEPTABLE_METHODS_method_def CONNECT_cmd_def BIND_cmd_def
  UDP_ASSOCIATE_cmd_def IP_V4_addr_def DOMAINNAME_addr_def IP_V6_addr_def
  SUCCEEDED_connReply_def GENERAL_SOCKS_SERVER_FAILURE_connReply_def
  ADDRESS_TYPE_NOT_SUPPORTED_connReply_def TCP_V4_def

lemma conn_Read_length: "conn_Read c n = (c', buf, k, e) \<Longrightarrow> length buf = n"
  by (auto simp: conn_Read_def Let_def split: if_splits list.splits)

lemma conn_Read_full:
  assumes "conn_Read c n = (c', buf, n, None)" and "0 < n"
  shows "concat (inp c) = buf @ concat (inp c')"
proof (cases "inp c")
  case Nil
  with assms show ?thesis by (simp add: conn_Read_def)
next
  case (Cons s ss)
  with assms have k: "min n (length s) = n" and b: "buf = take n s"
    and i: "inp c' = (if n < length s then drop n s # ss else ss)"
    by (auto simp: conn_Read_def Let_def min_def split: if_splits)
  from k have "n \<le> length s" by simp
  with Cons b i show ?thesis by (cases "n < length s") simp_all
qed

lemma readIPV4Addr_shape:
  "readIPV4Addr c = (c', Inr (a, p)) \<Longrightarrow> length a = 4 \<and> length p = 2"
  by (auto simp: readIPV4Addr_def split: prod.splits option.splits if_splits
      dest: conn_Read_length)

lemma readIPV6Addr_shape:
  "readIPV6Addr c = (c', Inr (a, p)) \<Longrightarrow> length a = 16 \<and> length p = 2"
  by (auto simp: readIPV6Addr_def split: prod.splits option.splits if_splits
      dest: conn_Read_length)

lemma readDomainNameAddr_shape:
  assumes "readDomainNameAddr c = (c', Inr (a, p))"
  shows "length a = unat (concat (inp c) ! 0) \<and> length p = 2"
proof -
  from assms obtain c1 len c2 c3 where
    r1: "conn_Read c 1 = (c1, len, 1, None)" and
    r2: "conn_Read c1 (unat (len ! 0)) = (c2, a, unat (len ! 0), None)" and
    r3: "conn_Read c2 2 = (c3, p, 2, None)"
    by (auto simp: readDomainNameAddr_def split: prod.splits option.splits if_splits)
  from r1 have "concat (inp c) = len @ concat (inp c1)" and "length len = 1"
    by (auto dest: conn_Read_full conn_Read_length)
  then have "concat (inp c) ! 0 = len ! 0"
    by (cases len) simp_all
  with r2 r3 show ?thesis
    by (auto dest: conn_Read_length)
qed

lemma readSockRequest_parsed:
  assumes "readSockRequest c = (c', Inr req)"
  shows "length (DstPort req) = 2 \<and> Socks5_Req.addr req = [] \<and> Socks5_Req.port req = 0
    \<and> Version req = SOCKS5H_VERSION
    \<and> (Socks5_Req.AType req = IP_V4_addr \<and> length (DstAddr req) = 4
       \<or> Socks5_Req.AType req = IP_V6_addr \<and> length (DstAddr req) = 16
       \<or> Socks5_Req.AType req = DOMAINNAME_addr
          \<and> length (DstAddr req) = unat (concat (inp c) ! 4))"
proof -
  from assms obtain c1 header where
    r: "conn_Read c 4 = (c1, header, 4, None)"
    by (auto simp: readSockRequest_def split: prod.splits option.splits if_splits)
  then have cc: "concat (inp c) = header @ concat (inp c1)" and lh: "length header = 4"
    by (auto dest: conn_Read_full conn_Read_length)
  then have idx: "concat (inp c) ! 4 = concat (inp c1) ! 0"
    by (simp add: nth_append)
  from assms r show ?thesis
    unfolding idx
    by (auto simp: readSockRequest_def Let_def socks_consts
        split: prod.splits sum.splits if_splits
        dest: readIPV4Addr_shape readIPV6Addr_shape readDomainNameAddr_shape)
qed

lemma caller_finish_returned: "returned (caller_finish st)"
  by (induction st rule: caller_finish.induct) (simp add: caller_finish.simps)

lemma tunnel_returns: "returned (tunnel sch client remote)"
proof -
  have "returned (tunnel_run sch st)" for st
    by (induction sch arbitrary: st) (auto simp: caller_finish_returned split: thread.splits)
  then show ?thesis by (simp add: tunnel_def)
qed

section \<open>The claims\<close>

text \<open>
  C1, amended.  For a parsed CONNECT request with address type DOMAINNAME, the dial
  step dials the string host:port over \<open>tcp4\<close>; when the dial succeeds the reply code
  is SUCCEEDED and the bound address and port are those of the local end of the new
  connection.
\<close>

theorem connectDst_domain_name:
  assumes "readSockRequest c = (c', Inr req)"
    and "Cmd req = CONNECT_cmd"
    and "Socks5_Req.AType req = DOMAINNAME_addr"
    and "d TCP_V4 (string_of_bytes (DstAddr req) @ '':'' @
           itoa (int (unat (DstPort req ! 1) + 256 * unat (DstPort req ! 0)))) = Inr r"
  shows "prepareProxy d req = connectDst d req
    \<and> (\<exists>res. connectDst d req = Inr (Some r, res, None)
           \<and> Reply res = SUCCEEDED_connReply
           \<and> BindAddr res = IP_String (IP (local r))
           \<and> BindPort res = Port (local r))"
  using readSockRequest_parsed [OF assms(1)] assms(2-4)
  by (simp add: prepareProxy_def connectDst_def FullAddr_def PortNum_def AddrStr_def
      BigEndian_Uint16_def Socks5_Res_zero_def Let_def)

text \<open>C1 as amended, at a CONNECT request for \<open>a.b:80\<close> that the network accepts.\<close>

theorem connectDst_domain_name_witness:
  "readSockRequest request_stream = (client_conn [], Inr request_domain)
   \<and> Cmd request_domain = CONNECT_cmd
   \<and> Socks5_Req.AType request_domain = DOMAINNAME_addr
   \<and> dial_accept TCP_V4 ''a.b:80'' = Inr remote_conn
   \<and> (\<exists>res. connectDst dial_accept request_domain = Inr (Some remote_conn, res, None)
          \<and> Reply res = SUCCEEDED_connReply
          \<and> BindAddr res = IP_String (IP (local remote_conn))
          \<and> BindPort res = Port (local remote_conn))"
proof -
  have h1: "readSockRequest request_stream = (client_conn [], Inr request_domain)"
    by code_simp
  have h2: "Cmd request_domain = CONNECT_cmd"
    and h3: "Socks5_Req.AType request_domain = DOMAINNAME_addr"
    by (simp_all add: request_domain_def socks_consts)
  have h4: "dial_accept TCP_V4 a = Inr remote_conn" for a
    by (simp add: dial_accept_def)
  from connectDst_domain_name
      [of request_stream "client_conn []" request_domain dial_accept remote_conn, OF h1 h2 h3 h4]
    h1 h2 h3 h4 show ?thesis
    by blast
qed

text \<open>
  C1 as stated fails at scenario A.  The destination is the IPv4 address 127.0.0.1,
  port 80, and the network would accept the dial; \<open>connectDst\<close> does not dial an IPv4
  destination.  The client receives \<open>05 00\<close> for the greeting and no reply to the
  request, and no relay starts.
\<close>

theorem scenario_A_counterexample:
  "handle_socks5_connection env_accept scenario_A =
     (\<lparr>inp = [], out = [0x05, 0x00], wcap = None, closed = True,
       local = \<lparr>IP = [127, 0, 0, 1], Port = 1080\<rparr>\<rparr>, None, Inl NilPointerDereference)"
  by code_simp

text \<open>
  C2.  Scenario D, a CONNECT to a host that refuses the dial: \<open>connectDst\<close> calls
  \<open>LocalAddr\<close> on the nil connection and panics.  The client receives the greeting's
  \<open>05 00\<close> and no reply; the deferred close runs.  The same panic ends a request
  whose address type is turned down before any dial.
\<close>

theorem scenario_D_panics:
  "handle_socks5_connection env_refuse scenario_D =
     (\<lparr>inp = [], out = [0x05, 0x00], wcap = None, closed = True,
       local = \<lparr>IP = [127, 0, 0, 1], Port = 1080\<rparr>\<rparr>, None, Inl NilPointerDereference)
   \<and> connectDst dial_refuse request_domain = Inl NilPointerDereference
   \<and> connectDst dial_accept request_ipv6 = Inl NilPointerDereference"
  by code_simp

text \<open>
  C3.  \<open>tunnel\<close> returns when the caller's copy ends, and does not wait for the
  goroutine.  Here the remote has closed and refuses writes, and the client still has
  three bytes to send.  If the caller runs first, \<open>tunnel\<close> returns with the
  goroutine's copy not ended, the client's bytes unread and a nil \<open>writeErr\<close>; if the
  goroutine runs first, \<open>writeErr\<close> is the write error.
\<close>

theorem tunnel_returns_early:
  "returned (tunnel [] tunnel_client tunnel_remote)
   \<and> \<not> go_done (tunnel [] tunnel_client tunnel_remote)
   \<and> inp (cli (tunnel [] tunnel_client tunnel_remote)) = [[0x01, 0x02, 0x03]]
   \<and> writeErr (tunnel [] tunnel_client tunnel_remote) = None
   \<and> writeErr (tunnel [Goroutine] tunnel_client tunnel_remote) = Some WriteError"
proof -
  have fin: "caller_finish st = st" if "returned st" for st
    using that by (simp add: caller_finish.simps)
  have unf: "caller_finish st = caller_finish (caller_step st)" if "\<not> returned st" for st
    using that by (simp add: caller_finish.simps)
  have eof: "copy_iter dst src = (dst, src, Some None)" if "inp src = []" for dst src
    using that by (simp add: copy_iter_def conn_Read_def)
  have r: "inp tunnel_remote = []"
    by (simp add: tunnel_remote_def remote_conn_def)
  have cs: "caller_step st = st\<lparr>readErr := None, returned := True\<rparr>"
    if "rem st = tunnel_remote" for st
    using that by (simp add: caller_step_def eof [OF r])
  have cf: "caller_finish st = st\<lparr>readErr := None, returned := True\<rparr>"
    if "rem st = tunnel_remote" and "\<not> returned st" for st
    using that by (simp add: unf cs fin)
  have g: "copy_iter tunnel_remote tunnel_client =
      (tunnel_remote, client_conn [], Some (Some WriteError))"
    by (simp add: copy_iter_def conn_Read_def conn_Write_def tunnel_client_def client_conn_def
        tunnel_remote_def remote_conn_def Let_def)
  show ?thesis
    by (simp add: tunnel_def cf go_step_def g) (simp add: tunnel_client_def client_conn_def)
qed

text \<open>
  C4.  After a dial whose local end is 127.0.0.1, port 54321, the reply carries address
  type 1 followed by the nine characters of the text \<open>127.0.0.1\<close>, not four raw
  bytes; the port is the two bytes \<open>D4 31\<close>.
\<close>

theorem reply_address_is_text:
  "connectDst dial_accept request_domain = Inr (Some remote_conn, reply_example, None)
   \<and> AddrBytes reply_example = [0x31, 0x32, 0x37, 0x2E, 0x30, 0x2E, 0x30, 0x2E, 0x31]
   \<and> out (fst (replyConnInfo (client_conn []) reply_example)) =
       [0x05, 0x00, 0x00, 0x01, 0x31, 0x32, 0x37, 0x2E, 0x30, 0x2E, 0x30, 0x2E, 0x31, 0xD4, 0x31]"
proof -
  have digits: "itoa_nat 127 = ''127''" "itoa_nat 0 = ''0''" "itoa_nat (Suc 0) = ''1''"
    by code_simp+
  have ip: "IP_String [127, 0, 0, 1] = ''127.0.0.1''"
    by (simp add: IP_String_def To4_def string4_def digits)
  have port: "FullAddr request_domain = Inr ''a.b:80''"
    by code_simp
  have c: "connectDst dial_accept request_domain = Inr (Some remote_conn, reply_example, None)"
    by (simp add: connectDst_def port dial_accept_def)
      (simp add: request_domain_def remote_conn_def reply_example_def Socks5_Res_zero_def
        socks_consts To4_def ip)
  have a: "AddrBytes reply_example = [0x31, 0x32, 0x37, 0x2E, 0x30, 0x2E, 0x30, 0x2E, 0x31]"
    by code_simp
  have p: "PortBytes reply_example = [0xD4, 0x31]"
    by (simp add: PortBytes_def reply_example_def BigEndian_PutUint16_def)
  have w: "out (fst (replyConnInfo (client_conn []) reply_example)) =
       [0x05, 0x00, 0x00, 0x01, 0x31, 0x32, 0x37, 0x2E, 0x30, 0x2E, 0x30, 0x2E, 0x31, 0xD4, 0x31]"
    by (simp add: replyConnInfo_def conn_Write_def client_conn_def a p Let_def socks_consts)
      (simp add: reply_example_def)
  from c a w show ?thesis by simp
qed

text \<open>
  C5.  Whatever methods the client offers, in any order and with or without repeats,
  the selection written is \<open>05 00\<close> when \<open>NO_AUTH\<close> is among them and \<open>05 FF\<close>
  otherwise: the bytes that reach the client are that reply, cut only by what the peer
  accepts, and the call returns nil exactly when both bytes were accepted.
\<close>

theorem replyMethodSelection_reply:
  "out (fst (replyMethodSelection c methods)) =
     out c @ take (case wcap c of None \<Rightarrow> 2 | Some k \<Rightarrow> k)
               (if NO_AUTHENTICATION_REQUIRED_method \<in> set methods
                then [0x05, 0x00] else [0x05, 0xFF])
   \<and> (snd (replyMethodSelection c methods) = None
        \<longleftrightarrow> (case wcap c of None \<Rightarrow> True | Some k \<Rightarrow> 2 \<le> k))"
  by (auto simp: replyMethodSelection_def conn_Write_def socks_consts Let_def
      split: option.splits prod.splits)

text \<open>
  C5, at two greetings: a list with repeats that holds \<open>NO_AUTH\<close>, and the empty list.
\<close>

theorem replyMethodSelection_reply_witness:
  "out (fst (replyMethodSelection (client_conn []) [0x02, 0x00, 0x02])) = [0x05, 0x00]
   \<and> out (fst (replyMethodSelection (client_conn []) [])) = [0x05, 0xFF]"
  using replyMethodSelection_reply [of "client_conn []" "[0x02, 0x00, 0x02]"]
    replyMethodSelection_reply [of "client_conn []" "[]"]
  by (simp add: client_conn_def socks_consts)

text \<open>
  C6.  When the four header bytes arrive and the version is not 5, the reserved byte is
  not 0, or the command is outside 1 to 3, \<open>readSockRequest\<close> fails with a protocol
  error and writes nothing to the client.
\<close>

theorem readSockRequest_rejects_header:
  assumes "inp c = (ver # cmd # rsv # atyp # rest) # ss"
    and "ver \<noteq> 0x05 \<or> rsv \<noteq> 0x00 \<or> cmd < 0x01 \<or> 0x03 < cmd"
  shows "\<exists>c' e. readSockRequest c = (c', Inl e) \<and> ProtocolError e \<and> out c' = out c
    \<and> e = ErrorsNew (if ver \<noteq> 0x05 \<or> rsv \<noteq> 0x00 then ''invalid version or rsv''
                      else ''request cmd type is invalid'')"
proof -
  have "conn_Read c 4 =
      (c\<lparr>inp := (if rest = [] then ss else rest # ss)\<rparr>, [ver, cmd, rsv, atyp], 4, None)"
    using assms(1) by (simp add: conn_Read_def Let_def)
  then show ?thesis
    using assms(2) by (auto simp: readSockRequest_def ProtocolError_def socks_consts Let_def)
qed

text \<open>C6, at a request whose version byte is 4.\<close>

theorem readSockRequest_rejects_header_witness:
  "\<exists>c' e. readSockRequest (client_conn [[0x04, 0x01, 0x00, 0x01, 0x7F, 0x00, 0x00, 0x01, 0x00, 0x50]])
       = (c', Inl e) \<and> ProtocolError e \<and> out c' = []
       \<and> e = ErrorsNew ''invalid version or rsv''"
  using readSockRequest_rejects_header
    [of "client_conn [[0x04, 0x01, 0x00, 0x01, 0x7F, 0x00, 0x00, 0x01, 0x00, 0x50]]"
        "0x04" "0x01" "0x00" "0x01" "[0x7F, 0x00, 0x00, 0x01, 0x00, 0x50]" "[]"]
  by (simp add: client_conn_def)

text \<open>
  C7.  The client sends a method count of 2 and one method byte (username/password),
  then closes.  The greeting reader returns the methods \<open>02 00\<close> with a nil error:
  the second byte is the buffer's zero.  The handler (in both packages) goes on, selects
  \<open>NO_AUTH\<close> and writes \<open>05 00\<close>.
\<close>

theorem short_greeting_proceeds:
  "handleSOCKS5_greeting (client_conn [[0x02, 0x02]]) = (client_conn [], Inr [0x02, 0x00])
   \<and> handle_socks5_connection env_accept short_greeting =
       (\<lparr>inp = [], out = [0x05, 0x00], wcap = None, closed = True,
         local = \<lparr>IP = [127, 0, 0, 1], Port = 1080\<rparr>\<rparr>, None, Inr (Some EOF))
   \<and> handlers_handleSOCKS5 (client_conn [[0x02, 0x02]]) =
       ((client_conn [])\<lparr>out := [0x05, 0x00]\<rparr>, Some EOF)"
  by code_simp

text \<open>
  C8.  When the greeting does not offer \<open>NO_AUTH\<close> and the reply \<open>05 FF\<close> has been
  written, the connection is left open with its input untouched, and \<open>handleSOCKS5\<close>
  (in both packages) goes on to read the request from it.
\<close>

theorem no_acceptable_methods_then_request:
  assumes "handleSOCKS5_greeting c = (c2, Inr methods)"
    and "NO_AUTHENTICATION_REQUIRED_method \<notin> set methods"
    and "replyMethodSelection c2 methods = (c3, None)"
  shows "out c3 = out c2 @ [0x05, 0xFF] \<and> inp c3 = inp c2 \<and> closed c3 = closed c2
    \<and> handleSOCKS5 e c =
        (case readSockRequest c3 of
           (c4, Inl err) \<Rightarrow> (c4, None, Inr (Some err))
         | (c4, Inr req) \<Rightarrow> handleSOCKS5_proxy e c4 req)
    \<and> handlers_handleSOCKS5 c = handlers_readSockRequest c3"
proof -
  from assms(2,3) have "out c3 = out c2 @ [0x05, 0xFF] \<and> inp c3 = inp c2 \<and> closed c3 = closed c2"
    by (auto simp: replyMethodSelection_def conn_Write_def socks_consts Let_def
        split: option.splits if_splits)
  then show ?thesis
    by (simp add: handleSOCKS5_def handlers_handleSOCKS5_def assms(1,3))
qed

text \<open>
  C8, at a greeting that offers username/password only, followed by a request header
  with version 4: the error comes from the request reader.
\<close>

theorem no_acceptable_methods_then_request_witness:
  "handleSOCKS5_greeting greeting_userpass = (client_conn [[0x04, 0x01, 0x00, 0x01]], Inr [0x02])
   \<and> NO_AUTHENTICATION_REQUIRED_method \<notin> set [0x02 :: byte]
   \<and> replyMethodSelection (client_conn [[0x04, 0x01, 0x00, 0x01]]) [0x02] =
       ((client_conn [[0x04, 0x01, 0x00, 0x01]])\<lparr>out := [0x05, 0xFF]\<rparr>, None)
   \<and> handleSOCKS5 env_accept greeting_userpass =
       ((client_conn [])\<lparr>out := [0x05, 0xFF]\<rparr>, None,
        Inr (Some (ErrorsNew ''invalid version or rsv'')))
   \<and> handlers_handleSOCKS5 greeting_userpass =
       ((client_conn [])\<lparr>out := [0x05, 0xFF]\<rparr>, Some (ErrorsNew ''invalid version or rsv''))"
proof -
  let ?c2 = "client_conn [[0x04, 0x01, 0x00, 0x01]]"
  let ?c3 = "?c2\<lparr>out := [0x05, 0xFF]\<rparr>"
  have h1: "handleSOCKS5_greeting greeting_userpass = (?c2, Inr [0x02])"
    by code_simp
  have h2: "NO_AUTHENTICATION_REQUIRED_method \<notin> set [0x02 :: byte]"
    by (simp add: socks_consts)
  have h3: "replyMethodSelection ?c2 [0x02] = (?c3, None)"
    by code_simp
  have h4: "readSockRequest ?c3 =
      ((client_conn [])\<lparr>out := [0x05, 0xFF]\<rparr>, Inl (ErrorsNew ''invalid version or rsv''))"
    by code_simp
  from no_acceptable_methods_then_request [OF h1 h2 h3, of env_accept] h1 h2 h3 h4
  show ?thesis by (simp add: handlers_readSockRequest_def)
qed

text \<open>
  C9.  A request with address type DOMAINNAME and length byte 0 is parsed without an
  error or a panic; its address is empty, so the host part of \<open>FullAddr\<close> is empty.
\<close>

theorem domain_name_length_zero:
  assumes "inp c = (0x05 # cmd # 0x00 # 0x03 # 0x00 # p1 # p2 # rest) # ss"
    and "0x01 \<le> cmd" and "cmd \<le> 0x03"
  shows "\<exists>c' req. readSockRequest c = (c', Inr req) \<and> DstAddr req = [] \<and> DstPort req = [p1, p2]
    \<and> AddrStr req = [] \<and> FullAddr req = Inr ('':'' @ itoa (int (unat p2 + 256 * unat p1)))"
proof -
  let ?c1 = "c\<lparr>inp := (0x00 # p1 # p2 # rest) # ss\<rparr>"
  let ?c2 = "c\<lparr>inp := (p1 # p2 # rest) # ss\<rparr>"
  let ?c3 = "c\<lparr>inp := (if rest = [] then ss else rest # ss)\<rparr>"
  have r0: "conn_Read c 4 = (?c1, [0x05, cmd, 0x00, 0x03], 4, None)"
    using assms(1) by (simp add: conn_Read_def Let_def)
  have r1: "conn_Read ?c1 1 = (?c2, [0x00], 1, None)"
    by (simp add: conn_Read_def Let_def)
  have r2: "conn_Read ?c2 0 = (?c2, [], 0, None)"
    by (simp add: conn_Read_def)
  have r3: "conn_Read ?c2 2 = (?c3, [p1, p2], 2, None)"
    by (simp add: conn_Read_def Let_def)
  have d: "readDomainNameAddr ?c1 = (?c3, Inr ([], [p1, p2]))"
    unfolding readDomainNameAddr_def r1 by (simp add: r2 r3)
  have "readSockRequest c =
      (?c3, Inr \<lparr>Version = 0x05, Cmd = cmd, Socks5_Req.AType = 0x03, DstAddr = [],
                 DstPort = [p1, p2], Socks5_Req.addr = [], Socks5_Req.port = 0\<rparr>)"
    unfolding readSockRequest_def r0
    using assms(2,3) by (simp add: d socks_consts Let_def not_less [symmetric])
  then show ?thesis
    by (simp add: AddrStr_def FullAddr_def PortNum_def BigEndian_Uint16_def string_of_bytes_def)
qed

text \<open>C9, at the request \<open>05 01 00 03 00 00 50\<close>.\<close>

theorem domain_name_length_zero_witness:
  "\<exists>c' req. readSockRequest (client_conn [[0x05, 0x01, 0x00, 0x03, 0x00, 0x00, 0x50]]) = (c', Inr req)
     \<and> DstAddr req = [] \<and> DstPort req = [0x00, 0x50] \<and> AddrStr req = []
     \<and> FullAddr req = Inr '':80''"
proof -
  have "itoa (int (unat (0x50 :: byte) + 256 * unat (0x00 :: byte))) = ''80''"
    by code_simp
  then show ?thesis
    using domain_name_length_zero
      [of "client_conn [[0x05, 0x01, 0x00, 0x03, 0x00, 0x00, 0x50]]" "0x01" "0x00" "0x50" "[]" "[]"]
    by (simp add: client_conn_def)
qed

text \<open>
  C10.  Every request that \<open>readSockRequest\<close> returns with a nil error has a port of
  two bytes and an address whose length fits its type: 4 for IPv4, 16 for IPv6, the
  length byte sent (the fifth byte of the stream) for a domain name.  So \<open>PortNum\<close> and
  \<open>FullAddr\<close> return without a panic.
\<close>

theorem readSockRequest_well_formed:
  assumes "readSockRequest c = (c', Inr req)"
  shows "length (DstPort req) = 2
    \<and> (Socks5_Req.AType req = IP_V4_addr \<and> length (DstAddr req) = 4
       \<or> Socks5_Req.AType req = IP_V6_addr \<and> length (DstAddr req) = 16
       \<or> Socks5_Req.AType req = DOMAINNAME_addr
          \<and> length (DstAddr req) = unat (concat (inp c) ! 4))
    \<and> PortNum req = Inr (int (unat (DstPort req ! 1) + 256 * unat (DstPort req ! 0)))
    \<and> FullAddr req =
        Inr (string_of_bytes (DstAddr req) @ '':'' @
             itoa (int (unat (DstPort req ! 1) + 256 * unat (DstPort req ! 0))))"
  using readSockRequest_parsed [OF assms]
  by (simp add: PortNum_def FullAddr_def AddrStr_def BigEndian_Uint16_def)

text \<open>C10, at a CONNECT request for the domain name \<open>a.b\<close>, port 80.\<close>

theorem readSockRequest_well_formed_witness:
  "readSockRequest request_stream = (client_conn [], Inr request_domain)
   \<and> length (DstPort request_domain) = 2
   \<and> length (DstAddr request_domain) = unat (concat (inp request_stream) ! 4)
   \<and> PortNum request_domain = Inr 80
   \<and> FullAddr request_domain = Inr ''a.b:80''"
proof -
  have h: "readSockRequest request_stream = (client_conn [], Inr request_domain)"
    by code_simp
  have a: "string_of_bytes (DstAddr request_domain) = ''a.b''"
    and p: "itoa (int (unat (DstPort request_domain ! 1) + 256 * unat (DstPort request_domain ! 0))) = ''80''"
    by code_simp+
  from readSockRequest_well_formed [OF h] h a p show ?thesis
    by (simp add: request_domain_def socks_consts)
qed

end
